theory Spec2Isabelle
  imports Complex_Main
begin

section \<open>JavaScript values used by the prediction module\<close>

text \<open>
  The module \<^verbatim>\<open>src/lib/ml-predictions.ts\<close> computes with JavaScript numbers, booleans,
  string-literal unions, optional properties and \<^verbatim>\<open>Date\<close> objects.

  \<^item> A \<^verbatim>\<open>number\<close> is modelled as a \<^typ>\<open>real\<close> with exact arithmetic: the inputs are
    finite numbers, and IEEE-754 rounding, \<^verbatim>\<open>NaN\<close> and the infinities are not modelled.
  \<^item> An optional property, and the value \<^verbatim>\<open>undefined\<close>, is \<^term>\<open>None\<close>.
  \<^item> A string-literal union is a datatype with one constructor for each literal.
\<close>

type_synonym number = real

definition Math_round :: "number \<Rightarrow> number" where
  \<comment> \<open>\<^verbatim>\<open>Math.round\<close>: the nearest integer, a tie going towards plus infinity.\<close>
  "Math_round x = of_int \<lfloor>x + 1 / 2\<rfloor>"

definition Math_max :: "number \<Rightarrow> number \<Rightarrow> number" where
  "Math_max a b = (if a < b then b else a)"

definition Math_min :: "number \<Rightarrow> number \<Rightarrow> number" where
  "Math_min a b = (if b < a then b else a)"

definition Math_pow2 :: "number \<Rightarrow> number" where
  \<comment> \<open>\<^verbatim>\<open>Math.pow(x, 2)\<close>\<close>
  "Math_pow2 x = x * x"

definition Math_sqrt :: "number \<Rightarrow> number" where
  "Math_sqrt x = sqrt x"

definition en_dash :: string where
  \<comment> \<open>U+2013, which the recommendation texts contain, as its UTF-8 bytes\<close>
  "en_dash = [CHR 0xE2, CHR 0x80, CHR 0x93]"


section \<open>PCOS prediction engine\<close>

record PCOSInputData =
  age :: number
  weight :: number
  bmi :: number
  cycleRegular :: bool
  cycleLength :: number
  weightGain :: bool
  hairGrowth :: bool
  skinDarkening :: bool
  hairLoss :: bool
  pimples :: bool
  fastFood :: bool
  regularExercise :: bool
  follicleLeft :: number
  follicleRight :: number
  endometrium :: number

datatype Severity = Sev_none | Sev_low | Sev_medium | Sev_high

record PCOSBreakdown =
  cycleScore :: number
  hormonalScore :: number
  ultrasoundScore :: number
  metabolicScore :: number

record PCOSRecommendations =
  diet :: "string list"
  exercise :: "string list"
  lifestyle :: "string list"
  needsDoctor :: bool

record PCOSResult =
  hasPCOS :: bool
  riskPercentage :: number
  severity :: Severity
  breakdown :: PCOSBreakdown
  recommendations :: PCOSRecommendations

fun getPCOSRecommendations :: "Severity \<Rightarrow> PCOSRecommendations" where
  "getPCOSRecommendations Sev_none =
     \<lparr> diet = [''Maintain balanced diet with whole grains'',
                ''Include fresh fruits and vegetables'',
                ''Stay hydrated with 2-3 liters water daily'',
                ''Include lean protein sources''],
       exercise = [''Continue regular physical activity'',
                   ''30 minutes of moderate exercise daily'',
                   ''Mix of cardio and strength training''],
       lifestyle = [''Maintain healthy sleep schedule'',
                    ''Regular health check-ups annually'',
                    ''Stress management practices''],
       needsDoctor = False \<rparr>"
| "getPCOSRecommendations Sev_low =
     \<lparr> diet = [''Low glycemic index foods (millets, oats, brown rice)'',
                ''Fresh vegetables (spinach, broccoli, carrot, cucumber)'',
                ''Fruits in moderation (apple, berries, guava)'',
                ''Lean protein sources (dal, paneer, eggs, fish)'',
                ''Healthy fats (nuts, seeds, olive oil)'',
                ''Drink 2'' @ en_dash @ ''3 liters of water daily''],
       exercise = [''Brisk walking '' @ en_dash @ '' 30 minutes daily'',
                   ''Yoga (Surya Namaskar, Anulom Vilom)'',
                   ''Light stretching exercises'',
                   ''Minimum 5 days per week''],
       lifestyle = [''Sleep 7'' @ en_dash @ ''8 hours daily'',
                    ''Reduce stress through meditation'',
                    ''Avoid late-night meals'',
                    ''Maintain a regular daily routine''],
       needsDoctor = False \<rparr>"
| "getPCOSRecommendations Sev_medium =
     \<lparr> diet = [''Strict low-GI diet to reduce insulin resistance'',
                ''High-fiber foods (vegetables, salads, sprouts)'',
                ''Protein in every meal (eggs, pulses, fish)'',
                ''Small and frequent meals'',
                ''Anti-inflammatory foods (turmeric, berries, nuts)'',
                ''Completely avoid sugar, fast food, bakery items''],
       exercise = [''Cardio workouts (walking/jogging) '' @ en_dash @ '' 30'' @ en_dash @ ''40 minutes'',
                   ''Strength training '' @ en_dash @ '' 3 to 4 days per week'',
                   ''Yoga for hormone balance'',
                   ''Beginner-level HIIT exercises''],
       lifestyle = [''Fixed sleep and wake-up time'',
                    ''Weight monitoring every week'',
                    ''Reduce screen time'',
                    ''Stress management is mandatory''],
       needsDoctor = True \<rparr>"
| "getPCOSRecommendations Sev_high =
     \<lparr> diet = [''Very strict low-glycemic-index diet'',
                ''High-fiber vegetables in every meal'',
                ''Lean protein with each meal'',
                ''Anti-inflammatory foods only'',
                ''Complete elimination of sugar, maida, fried food'',
                ''Avoid alcohol, soft drinks, and packaged foods'',
                ''Calorie-controlled meals under medical guidance''],
       exercise = [''HIIT workouts (doctor-approved)'',
                   ''Resistance training for insulin sensitivity'',
                   ''Cardio exercises '' @ en_dash @ '' 45 to 60 minutes daily'',
                   ''Daily yoga for hormonal balance'',
                   ''Consistency is critical''],
       lifestyle = [''Strict daily routine'',
                    ''Mental health care and counseling if needed'',
                    ''Avoid crash dieting'',
                    ''Track menstrual cycle and symptoms monthly'',
                    ''Long-term lifestyle discipline required''],
       needsDoctor = True \<rparr>"

text \<open>The local bindings of \<^verbatim>\<open>predictPCOS\<close>, one definition for each \<^verbatim>\<open>const\<close>.\<close>

definition pcos_cycleScore :: "PCOSInputData \<Rightarrow> number" where
  "pcos_cycleScore d = (if cycleRegular d then 0 else 1)"

definition pcos_hormonalScore :: "PCOSInputData \<Rightarrow> number" where
  "pcos_hormonalScore d =
     (if hairGrowth d then 1 else 0) +
     (if skinDarkening d then 1 else 0) +
     (if hairLoss d then 1 else 0) +
     (if pimples d then 1 else 0)"

definition pcos_totalFollicles :: "PCOSInputData \<Rightarrow> number" where
  "pcos_totalFollicles d = follicleLeft d + follicleRight d"

definition pcos_ultrasoundScore :: "PCOSInputData \<Rightarrow> number" where
  "pcos_ultrasoundScore d = (if pcos_totalFollicles d \<ge> 10 then 1 else 0)"

definition pcos_metabolicScore :: "PCOSInputData \<Rightarrow> number" where
  "pcos_metabolicScore d = (if bmi d \<ge> 25 then 1 else 0)"

definition pcos_lifestyleScore :: "PCOSInputData \<Rightarrow> number" where
  "pcos_lifestyleScore d =
     (if weightGain d then 0.5 else 0) +
     (if fastFood d then 0.5 else 0) +
     (if \<not> regularExercise d then 0.5 else 0)"

definition pcos_totalScore :: "PCOSInputData \<Rightarrow> number" where
  "pcos_totalScore d =
     2 * pcos_cycleScore d +
     2 * pcos_ultrasoundScore d +
     pcos_hormonalScore d +
     pcos_metabolicScore d +
     pcos_lifestyleScore d"

definition pcos_unclamped :: "PCOSInputData \<Rightarrow> number" where
  \<comment> \<open>the first value of \<^verbatim>\<open>riskPercentage\<close>, before \<^verbatim>\<open>Math.max\<close> and \<^verbatim>\<open>Math.min\<close>\<close>
  "pcos_unclamped d = Math_round ((pcos_totalScore d / 9) * 100)"

definition predictPCOS :: "PCOSInputData \<Rightarrow> PCOSResult" where
  "predictPCOS d =
     (let cycleScore = pcos_cycleScore d;
          hormonalScore = pcos_hormonalScore d;
          ultrasoundScore = pcos_ultrasoundScore d;
          metabolicScore = pcos_metabolicScore d;
          totalScore = pcos_totalScore d;
          hasPCOS = (totalScore \<ge> 4);
          riskPercentage0 = pcos_unclamped d;
          riskPercentage1 = Math_max (if hasPCOS then 30 else 0) riskPercentage0;
          riskPercentage = Math_min 100 riskPercentage1;
          severity =
            (if \<not> hasPCOS then Sev_none
             else if riskPercentage < 50 then Sev_low
             else if riskPercentage < 70 then Sev_medium
             else Sev_high);
          recommendations = getPCOSRecommendations severity
      in \<lparr> hasPCOS = hasPCOS,
           riskPercentage = riskPercentage,
           severity = severity,
           breakdown = \<lparr> cycleScore = cycleScore * 2,
                         hormonalScore = hormonalScore,
                         ultrasoundScore = ultrasoundScore * 2,
                         metabolicScore = metabolicScore \<rparr>,
           recommendations = recommendations \<rparr>)"


section \<open>Menopause prediction engine\<close>

record MenopauseInputData =
  age :: number
  estrogenLevel :: number
  fshLevel :: number
  yearsSinceLastPeriod :: number
  irregularPeriods :: bool
  missedPeriods :: bool
  hotFlashes :: bool
  nightSweats :: bool
  sleepProblems :: bool
  vaginalDryness :: bool
  jointPain :: bool

datatype Stage = Pre_Menopause | Peri_Menopause | Post_Menopause

record MenopauseBreakdown =
  ageScore :: number
  hormoneScore :: number
  symptomScore :: number
  periodScore :: number

record MenopauseRecommendations =
  diet :: "string list"
  exercise :: "string list"
  lifestyle :: "string list"
  needsDoctor :: bool

record MenopauseResult =
  stage :: Stage
  riskPercentage :: number
  hasMenopauseSymptoms :: bool
  breakdown :: MenopauseBreakdown
  recommendations :: MenopauseRecommendations

fun getMenopauseRecommendations :: "Stage \<Rightarrow> MenopauseRecommendations" where
  "getMenopauseRecommendations Pre_Menopause =
     \<lparr> diet = [''Maintain balanced nutrition'',
                ''Include calcium-rich foods'',
                ''Stay hydrated'',
                ''Moderate caffeine intake''],
       exercise = [''Regular cardio and strength training'',
                   ''Maintain bone health with weight-bearing exercises'',
                   ''Stay active 30 minutes daily''],
       lifestyle = [''Regular health check-ups'',
                    ''Stress management'',
                    ''Quality sleep habits''],
       needsDoctor = False \<rparr>"
| "getMenopauseRecommendations Peri_Menopause =
     \<lparr> diet = [''Low-GI foods: oats, brown rice, whole wheat roti'',
                ''High-fiber foods: salads, sprouts, flax seeds'',
                ''Protein sources: eggs, pulses, soy, paneer'',
                ''Healthy fats: nuts, seeds, olive oil'',
                ''Calcium-rich foods: milk, curd, ragi'',
                ''Vitamin-D foods or supplements (doctor advice)'',
                ''Avoid: Sugar, bakery items, excess caffeine''],
       exercise = [''Brisk walking '' @ en_dash @ '' 30 to 40 minutes daily'',
                   ''Yoga: Anulom-Vilom, Bhramari, Surya Namaskar'',
                   ''Strength training '' @ en_dash @ '' 2 to 3 days per week'',
                   ''Light cardio (cycling, skipping)''],
       lifestyle = [''Fixed sleep and wake-up time'',
                    ''Daily meditation or breathing exercises'',
                    ''Stress management is very important'',
                    ''Maintain healthy body weight''],
       needsDoctor = True \<rparr>"
| "getMenopauseRecommendations Post_Menopause =
     \<lparr> diet = [''High-calcium foods: milk, cheese, curd, sesame seeds'',
                ''Vitamin-D rich foods or supplements'',
                ''High-protein diet: lentils, eggs, fish, tofu'',
                ''Anti-inflammatory foods: turmeric, berries, green tea'',
                ''Plenty of fruits and vegetables'',
                ''Avoid: Fried food, excess salt, sugary foods''],
       exercise = [''Weight-bearing exercises: walking, stair climbing'',
                   ''Light strength training (resistance bands, dumbbells)'',
                   ''Balance exercises to prevent falls'',
                   ''Stretching and flexibility exercises''],
       lifestyle = [''Regular medical check-ups'',
                    ''Bone density test (doctor advice)'',
                    ''Avoid smoking and alcohol'',
                    ''Maintain a stress-free routine''],
       needsDoctor = True \<rparr>"

text \<open>The local bindings of \<^verbatim>\<open>predictMenopause\<close>.\<close>

definition meno_stage :: "MenopauseInputData \<Rightarrow> Stage" where
  "meno_stage d =
     (if yearsSinceLastPeriod d \<ge> 1 then Post_Menopause
      else if MenopauseInputData.age d \<ge> 40 \<and>
              (irregularPeriods d \<or> missedPeriods d \<or> hotFlashes d) then Peri_Menopause
      else Pre_Menopause)"

definition meno_ageScore :: "MenopauseInputData \<Rightarrow> number" where
  "meno_ageScore d =
     (if MenopauseInputData.age d \<ge> 55 then 4
      else if MenopauseInputData.age d \<ge> 50 then 3
      else if MenopauseInputData.age d \<ge> 45 then 2
      else if MenopauseInputData.age d \<ge> 40 then 1
      else 0)"

definition meno_hormoneScore :: "MenopauseInputData \<Rightarrow> number" where
  "meno_hormoneScore d =
     (let hormoneScore0 = 0;
          hormoneScore1 =
            (if fshLevel d \<ge> 40 then hormoneScore0 + 2
             else if fshLevel d \<ge> 25 then hormoneScore0 + 1
             else hormoneScore0)
      in if estrogenLevel d \<le> 30 then hormoneScore1 + 2
         else if estrogenLevel d \<le> 50 then hormoneScore1 + 1
         else hormoneScore1)"

definition meno_symptomScore :: "MenopauseInputData \<Rightarrow> number" where
  "meno_symptomScore d =
     (if irregularPeriods d then 1 else 0) +
     (if missedPeriods d then 1 else 0) +
     (if hotFlashes d then 1 else 0) +
     (if nightSweats d then 1 else 0) +
     (if sleepProblems d then 1 else 0) +
     (if vaginalDryness d then 1 else 0) +
     (if jointPain d then 1 else 0)"

definition meno_periodScore :: "MenopauseInputData \<Rightarrow> number" where
  "meno_periodScore d =
     (if yearsSinceLastPeriod d \<ge> 2 then 4
      else if yearsSinceLastPeriod d \<ge> 1 then 3
      else if yearsSinceLastPeriod d \<ge> 0.5 then 2
      else if yearsSinceLastPeriod d > 0 then 1
      else 0)"

definition meno_totalScore :: "MenopauseInputData \<Rightarrow> number" where
  "meno_totalScore d =
     meno_ageScore d + meno_hormoneScore d + meno_symptomScore d + meno_periodScore d"

definition predictMenopause :: "MenopauseInputData \<Rightarrow> MenopauseResult" where
  "predictMenopause d =
     (let stage = meno_stage d;
          ageScore = meno_ageScore d;
          hormoneScore = meno_hormoneScore d;
          symptomScore = meno_symptomScore d;
          periodScore = meno_periodScore d;
          maxScore = 19;
          totalScore = meno_totalScore d;
          riskPercentage0 = Math_round ((totalScore / maxScore) * 100);
          riskPercentage = Math_min 100 (Math_max 0 riskPercentage0);
          hasMenopauseSymptoms = (stage \<noteq> Pre_Menopause);
          recommendations = getMenopauseRecommendations stage
      in \<lparr> stage = stage,
           riskPercentage = riskPercentage,
           hasMenopauseSymptoms = hasMenopauseSymptoms,
           breakdown = \<lparr> ageScore = ageScore,
                         hormoneScore = hormoneScore,
                         symptomScore = symptomScore,
                         periodScore = periodScore \<rparr>,
           recommendations = recommendations \<rparr>)"


section \<open>Dates\<close>

text \<open>
  A \<^verbatim>\<open>Date\<close> is held in local time, as the methods \<^verbatim>\<open>getDate\<close> and \<^verbatim>\<open>setDate\<close>
  read and write it: the number of its local calendar day, counted from 1 January 1970,
  and the time within that day in milliseconds. The conversion between local time and UTC
  is not modelled, and the date is taken to be a valid one.
\<close>

record Date =
  localDay :: int
  timeInDay :: int

definition DateFromTime :: "int \<Rightarrow> int" where
  \<comment> \<open>the day of the month, 1 to 31, of a day number in the proleptic Gregorian calendar\<close>
  "DateFromTime z =
     (let z1 = z + 719468;
          era = z1 div 146097;
          doe = z1 - era * 146097;
          yoe = (doe - doe div 1460 + doe div 36524 - doe div 146096) div 365;
          doy = doe - (365 * yoe + yoe div 4 - yoe div 100);
          mp = (5 * doy + 2) div 153
      in doy - (153 * mp + 2) div 5 + 1)"

definition ToIntegerOrInfinity :: "number \<Rightarrow> int" where
  \<comment> \<open>truncation towards zero\<close>
  "ToIntegerOrInfinity x = (if x \<ge> 0 then \<lfloor>x\<rfloor> else \<lceil>x\<rceil>)"

definition new_Date :: "Date \<Rightarrow> Date" where
  \<comment> \<open>\<^verbatim>\<open>new Date(d)\<close>: a fresh object with the time value of \<open>d\<close>\<close>
  "new_Date d = d"

definition getDate :: "Date \<Rightarrow> number" where
  "getDate d = of_int (DateFromTime (localDay d))"

definition setDate :: "Date \<Rightarrow> number \<Rightarrow> Date" where
  \<comment> \<open>\<^verbatim>\<open>MakeDay(year, month, dt)\<close> is the day number of the first of the month plus \<open>dt - 1\<close>;
      the time within the day is kept.\<close>
  "setDate d dt =
     (let firstOfMonth = localDay d - (DateFromTime (localDay d) - 1)
      in d\<lparr> localDay := firstOfMonth + ToIntegerOrInfinity dt - 1 \<rparr>)"

definition addDays :: "Date \<Rightarrow> int \<Rightarrow> Date" where
  \<comment> \<open>the date \<open>n\<close> calendar days after \<open>d\<close>, at the same time of day\<close>
  "addDays d n = d\<lparr> localDay := localDay d + n \<rparr>"


section \<open>Menstrual cycle prediction\<close>

datatype Cramps = Cramps_none | Cramps_mild | Cramps_severe

datatype Mood = Mood_stable | Mood_irritable | Mood_depressed

record Symptoms =
  cramps :: "Cramps option"
  mood :: "Mood option"
  acne :: "bool option"
  bloating :: "bool option"
  fatigue :: "bool option"

record CycleData =
  cycleHistory :: "number list"
  lastPeriodStart :: Date
  symptoms :: "Symptoms option"
  stressLevel :: "number option"
  sleepHours :: "number option"

datatype Confidence = Conf_high | Conf_medium | Conf_low

text \<open>
  The interface declares \<^verbatim>\<open>pcosRiskFlag: boolean\<close>, but the value that
  \<^verbatim>\<open>predictNextCycle\<close> stores there comes from a chain of \<^verbatim>\<open>||\<close> and \<^verbatim>\<open>&&\<close> over
  \<^verbatim>\<open>symptoms?.acne\<close>, so it is a boolean or \<^verbatim>\<open>undefined\<close>: the field is a
  \<^typ>\<open>bool option\<close>.
\<close>

record CyclePrediction =
  predictedStartDate :: Date
  confidenceLevel :: Confidence
  averageCycleLength :: number
  cycleVariability :: number
  isIrregular :: bool
  pcosRiskFlag :: "bool option"
  delayAdjustment :: number

definition js_and :: "bool option \<Rightarrow> bool option \<Rightarrow> bool option" where
  \<comment> \<open>\<^verbatim>\<open>a && b\<close>: \<open>a\<close> when \<open>a\<close> is falsy, \<open>b\<close> otherwise\<close>
  "js_and a b = (if a = Some True then b else a)"

definition js_or :: "bool option \<Rightarrow> bool option \<Rightarrow> bool option" where
  \<comment> \<open>\<^verbatim>\<open>a || b\<close>: \<open>a\<close> when \<open>a\<close> is truthy, \<open>b\<close> otherwise\<close>
  "js_or a b = (if a = Some True then a else b)"

definition opt_chain :: "'a option \<Rightarrow> ('a \<Rightarrow> 'b option) \<Rightarrow> 'b option" where
  \<comment> \<open>\<^verbatim>\<open>obj?.field\<close>\<close>
  "opt_chain obj field = (case obj of None \<Rightarrow> None | Some s \<Rightarrow> field s)"

definition slice_last6 :: "'a list \<Rightarrow> 'a list" where
  \<comment> \<open>\<^verbatim>\<open>xs.slice(-6)\<close>: from index \<open>max (length xs - 6) 0\<close> to the end\<close>
  "slice_last6 xs = drop (length xs - 6) xs"

definition reduce_sum :: "number list \<Rightarrow> number" where
  \<comment> \<open>\<^verbatim>\<open>xs.reduce((a, b) => a + b, 0)\<close>\<close>
  "reduce_sum xs = foldl (\<lambda>a b. a + b) 0 xs"

definition reduce_indexed :: "(number \<Rightarrow> number \<Rightarrow> nat \<Rightarrow> number) \<Rightarrow> number \<Rightarrow> number list \<Rightarrow> number" where
  \<comment> \<open>\<^verbatim>\<open>xs.reduce((sum, x, i) => f(sum, x, i), init)\<close>\<close>
  "reduce_indexed f init xs = foldl (\<lambda>acc (x, i). f acc x i) init (zip xs [0..<length xs])"

definition cyc_recentCycles :: "CycleData \<Rightarrow> number list" where
  "cyc_recentCycles d = slice_last6 (cycleHistory d)"

definition cyc_weights :: "CycleData \<Rightarrow> number list" where
  \<comment> \<open>\<^verbatim>\<open>recentCycles.map((_, i) => i + 1)\<close>\<close>
  "cyc_weights d = map (\<lambda>i. real i + 1) [0..<length (cyc_recentCycles d)]"

definition cyc_totalWeight :: "CycleData \<Rightarrow> number" where
  "cyc_totalWeight d = reduce_sum (cyc_weights d)"

definition cyc_weightedAverage :: "CycleData \<Rightarrow> number" where
  "cyc_weightedAverage d =
     reduce_indexed (\<lambda>sum cycle i. sum + cycle * (cyc_weights d ! i)) 0 (cyc_recentCycles d)
       / cyc_totalWeight d"

definition cyc_mean :: "CycleData \<Rightarrow> number" where
  "cyc_mean d = reduce_sum (cyc_recentCycles d) / real (length (cyc_recentCycles d))"

definition cyc_variance :: "CycleData \<Rightarrow> number" where
  "cyc_variance d =
     reduce_indexed (\<lambda>sum cycle i. sum + Math_pow2 (cycle - cyc_mean d)) 0 (cyc_recentCycles d)
       / real (length (cyc_recentCycles d))"

definition cyc_variability :: "CycleData \<Rightarrow> number" where
  "cyc_variability d = Math_sqrt (cyc_variance d)"

definition cyc_confidenceLevel :: "CycleData \<Rightarrow> Confidence" where
  "cyc_confidenceLevel d =
     (if cyc_variability d \<le> 2 \<and> length (cycleHistory d) \<ge> 3 then Conf_high
      else if cyc_variability d \<le> 5 \<or> length (cycleHistory d) \<ge> 6 then Conf_medium
      else Conf_low)"

definition cyc_isIrregular :: "CycleData \<Rightarrow> bool" where
  "cyc_isIrregular d =
     (cyc_variability d > 7 \<or> list_ex (\<lambda>c. c < 21 \<or> c > 35) (cyc_recentCycles d))"

definition cyc_longCycles :: "CycleData \<Rightarrow> nat" where
  "cyc_longCycles d = length (filter (\<lambda>c. c > 35) (cyc_recentCycles d))"

definition cyc_pcosRiskFlag :: "CycleData \<Rightarrow> bool option" where
  "cyc_pcosRiskFlag d =
     js_or (Some (cyc_longCycles d \<ge> 3))
       (js_and (js_and (Some (cyc_isIrregular d)) (opt_chain (symptoms d) acne))
          (Some (opt_chain (symptoms d) cramps = Some Cramps_severe \<or>
                 opt_chain (symptoms d) mood = Some Mood_irritable)))"

text \<open>
  In \<^verbatim>\<open>stressLevel && stressLevel >= 4\<close> the left operand is an optional number:
  \<^verbatim>\<open>undefined\<close> and \<open>0\<close> are falsy, and the comparison is made only on a truthy value.
\<close>

definition cyc_delayAdjustment :: "CycleData \<Rightarrow> number" where
  "cyc_delayAdjustment d =
     (let delayAdjustment0 = 0;
          delayAdjustment1 =
            (if (case stressLevel d of None \<Rightarrow> False | Some s \<Rightarrow> s \<noteq> 0 \<and> s \<ge> 4)
             then delayAdjustment0 + 2 else delayAdjustment0)
      in if (case sleepHours d of None \<Rightarrow> False | Some h \<Rightarrow> h \<noteq> 0 \<and> h < 6)
         then delayAdjustment1 + 1 else delayAdjustment1)"

definition predictNextCycle :: "CycleData \<Rightarrow> CyclePrediction" where
  "predictNextCycle d =
     (if length (cycleHistory d) = 0 then
        (let predictedDate0 = new_Date (lastPeriodStart d);
             predictedDate = setDate predictedDate0 (getDate predictedDate0 + 28)
         in \<lparr> predictedStartDate = predictedDate,
              confidenceLevel = Conf_low,
              averageCycleLength = 28,
              cycleVariability = 0,
              isIrregular = False,
              pcosRiskFlag = Some False,
              delayAdjustment = 0 \<rparr>)
      else
        (let weightedAverage = cyc_weightedAverage d;
             variability = cyc_variability d;
             delayAdjustment = cyc_delayAdjustment d;
             predictedDate0 = new_Date (lastPeriodStart d);
             predictedDate =
               setDate predictedDate0
                 (getDate predictedDate0 + Math_round weightedAverage + delayAdjustment)
         in \<lparr> predictedStartDate = predictedDate,
              confidenceLevel = cyc_confidenceLevel d,
              averageCycleLength = Math_round weightedAverage,
              cycleVariability = Math_round (variability * 10) / 10,
              isIrregular = cyc_isIrregular d,
              pcosRiskFlag = cyc_pcosRiskFlag d,
              delayAdjustment = delayAdjustment \<rparr>))"


section \<open>Predictions through the remote API, with the local fallback\<close>

text \<open>
  Each \<^verbatim>\<open>predict...FromAPI\<close> function awaits \<^verbatim>\<open>fetch\<close> inside \<^verbatim>\<open>try\<close> and calls the local
  function inside \<^verbatim>\<open>catch\<close>. What the network does is an input of the model: \<^verbatim>\<open>fetch\<close>
  rejects with an error, or resolves to a response whose \<^verbatim>\<open>text()\<close> and \<^verbatim>\<open>json()\<close> each
  reject with an error or resolve to a value. An error is its \<^verbatim>\<open>message\<close>. The \<^verbatim>\<open>try\<close>
  block is a function to \<open>string + 'a\<close>, \<^term>\<open>Inl\<close> carrying the message of the error
  thrown. The console output, and the row that the success path inserts in a table when a
  \<^verbatim>\<open>userId\<close> is given, do not change the value returned and are left out.
\<close>

record MLPredictionMeta =
  usedAPI :: bool
  error :: "string option"

datatype 'j Response =
  Response (resp_ok: bool) (resp_text: "string + string") (resp_json: "string + 'j")

datatype 'j FetchOutcome = Rejects string | Resolves "'j Response"

text \<open>
  The JSON body of the PCOS endpoint, its keys prefixed with \<open>api_\<close> (the key
  \<^verbatim>\<open>recommendations.doctor\<close> apart). A body without \<^verbatim>\<open>recommendations\<close> makes the
  read of \<^verbatim>\<open>result.recommendations.diet\<close> throw.
\<close>

record PCOSApiRecommendations =
  api_diet :: "string list"
  api_exercise :: "string list"
  api_lifestyle :: "string list"
  doctor :: bool

record PCOSApiBody =
  api_hasPCOS :: bool
  api_riskPercentage :: number
  api_severity :: string
  api_breakdown :: PCOSBreakdown
  api_recommendations :: "PCOSApiRecommendations option"

definition severityMap :: "(string \<times> Severity) list" where
  "severityMap =
     [(''Low'', Sev_low), (''Medium'', Sev_medium), (''High'', Sev_high), (''None'', Sev_none)]"

definition pcos_try :: "PCOSApiBody FetchOutcome \<Rightarrow> string + PCOSResult" where
  "pcos_try fetched =
     (case fetched of
        Rejects msg \<Rightarrow> Inl msg
      | Resolves response \<Rightarrow>
          if \<not> resp_ok response then
            (case resp_text response of
               Inl msg \<Rightarrow> Inl msg
             | Inr errorText \<Rightarrow> Inl ''Backend validation failed'')
          else
            (case resp_json response of
               Inl msg \<Rightarrow> Inl msg
             | Inr result \<Rightarrow>
                 (case api_recommendations result of
                    None \<Rightarrow> Inl ''Cannot read properties of undefined''
                  | Some r \<Rightarrow>
                      Inr \<lparr> hasPCOS = api_hasPCOS result,
                            riskPercentage = api_riskPercentage result,
                            severity =
                              (case map_of severityMap (api_severity result) of
                                 Some v \<Rightarrow> v
                               | None \<Rightarrow> Sev_none),
                            breakdown = api_breakdown result,
                            recommendations =
                              \<lparr> PCOSRecommendations.diet = api_diet r,
                                PCOSRecommendations.exercise = api_exercise r,
                                PCOSRecommendations.lifestyle = api_lifestyle r,
                                PCOSRecommendations.needsDoctor = doctor r \<rparr> \<rparr>)))"

definition predictPCOSFromAPI ::
    "PCOSInputData \<Rightarrow> PCOSApiBody FetchOutcome \<Rightarrow> PCOSResult \<times> MLPredictionMeta" where
  "predictPCOSFromAPI data fetched =
     (case pcos_try fetched of
        Inr formattedResult \<Rightarrow> (formattedResult, \<lparr> usedAPI = True, error = None \<rparr>)
      | Inl message \<Rightarrow>
          (let localResult = predictPCOS data
           in (localResult, \<lparr> usedAPI = False, error = Some message \<rparr>)))"

definition menopause_try :: "MenopauseResult FetchOutcome \<Rightarrow> string + MenopauseResult" where
  "menopause_try fetched =
     (case fetched of
        Rejects msg \<Rightarrow> Inl msg
      | Resolves response \<Rightarrow>
          if \<not> resp_ok response then
            (case resp_text response of
               Inl msg \<Rightarrow> Inl msg
             | Inr errorText \<Rightarrow> Inl ''Backend validation failed'')
          else
            (case resp_json response of
               Inl msg \<Rightarrow> Inl msg
             | Inr result \<Rightarrow> Inr result))"

definition predictMenopauseFromAPI ::
    "MenopauseInputData \<Rightarrow> MenopauseResult FetchOutcome \<Rightarrow> MenopauseResult \<times> MLPredictionMeta" where
  "predictMenopauseFromAPI data fetched =
     (case menopause_try fetched of
        Inr result \<Rightarrow> (result, \<lparr> usedAPI = True, error = None \<rparr>)
      | Inl message \<Rightarrow>
          (let localResult = predictMenopause data
           in (localResult, \<lparr> usedAPI = False, error = Some message \<rparr>)))"

definition cycle_try :: "CyclePrediction FetchOutcome \<Rightarrow> string + CyclePrediction" where
  "cycle_try fetched =
     (case fetched of
        Rejects msg \<Rightarrow> Inl msg
      | Resolves response \<Rightarrow>
          if \<not> resp_ok response then Inl ''Backend error''
          else
            (case resp_json response of
               Inl msg \<Rightarrow> Inl msg
             | Inr result \<Rightarrow>
                 Inr \<lparr> predictedStartDate = new_Date (predictedStartDate result),
                       confidenceLevel = confidenceLevel result,
                       averageCycleLength = averageCycleLength result,
                       cycleVariability = cycleVariability result,
                       isIrregular = isIrregular result,
                       pcosRiskFlag = pcosRiskFlag result,
                       delayAdjustment = delayAdjustment result \<rparr>))"

definition predictCycleFromAPI ::
    "CycleData \<Rightarrow> CyclePrediction FetchOutcome \<Rightarrow> CyclePrediction \<times> MLPredictionMeta" where
  "predictCycleFromAPI data fetched =
     (case cycle_try fetched of
        Inr formatted \<Rightarrow> (formatted, \<lparr> usedAPI = True, error = None \<rparr>)
      | Inl message \<Rightarrow>
          (let localResult = predictNextCycle data
           in (localResult, \<lparr> usedAPI = False, error = Some message \<rparr>)))"

definition api_call_fails :: "'j FetchOutcome \<Rightarrow> bool" where
  \<comment> \<open>the fetch throws, or the response is not ok\<close>
  "api_call_fails fetched =
     (case fetched of Rejects msg \<Rightarrow> True | Resolves response \<Rightarrow> \<not> resp_ok response)"


section \<open>The stated behaviour, written from its description\<close>

text \<open>
  The definitions of this section follow the wording of the specification, not the code;
  the theorems below compare them with the functions above.
\<close>

definition count_true :: "bool list \<Rightarrow> number" where
  "count_true bs = real (length (filter (\<lambda>b. b) bs))"

definition spec_pcos_total :: "PCOSInputData \<Rightarrow> number" where
  "spec_pcos_total d =
     2 * (if \<not> cycleRegular d then 1 else 0) +
     2 * (if follicleLeft d + follicleRight d \<ge> 10 then 1 else 0) +
     count_true [hairGrowth d, skinDarkening d, hairLoss d, pimples d] +
     (if bmi d \<ge> 25 then 1 else 0) +
     0.5 * count_true [weightGain d, fastFood d, \<not> regularExercise d]"

definition spec_pcos_risk :: "PCOSInputData \<Rightarrow> number" where
  "spec_pcos_risk d =
     (let rounded = of_int (round (spec_pcos_total d / 9 * 100));
          raised = (if spec_pcos_total d \<ge> 4 then max 30 rounded else rounded)
      in min 100 raised)"

definition spec_last_cycles :: "number list \<Rightarrow> number list" where
  \<comment> \<open>the last \<open>min 6 n\<close> entries of a history of \<open>n\<close> entries\<close>
  "spec_last_cycles h = drop (length h - min 6 (length h)) h"

definition spec_weighted_mean :: "number list \<Rightarrow> number" where
  \<comment> \<open>weights \<open>1, 2, ..., k\<close> in the order of the list\<close>
  "spec_weighted_mean xs =
     (\<Sum>i<length xs. real (i + 1) * xs ! i) / (\<Sum>i<length xs. real (i + 1))"

definition spec_population_sd :: "number list \<Rightarrow> number" where
  "spec_population_sd xs =
     (let n = real (length xs); \<mu> = sum_list xs / n
      in sqrt ((\<Sum>x\<leftarrow>xs. (x - \<mu>)\<^sup>2) / n))"

definition spec_delay :: "CycleData \<Rightarrow> number" where
  \<comment> \<open>2 for a stress level given and at least 4, plus 1 for sleep hours given, not zero
      and below 6\<close>
  "spec_delay d =
     (if (case stressLevel d of None \<Rightarrow> False | Some s \<Rightarrow> s \<ge> 4) then 2 else 0) +
     (if (case sleepHours d of None \<Rightarrow> False | Some h \<Rightarrow> h \<noteq> 0 \<and> h < 6) then 1 else 0)"


section \<open>Example inputs\<close>

definition pcos_example :: PCOSInputData where
  \<comment> \<open>an irregular cycle and two hormonal symptoms: a total score of 4\<close>
  "pcos_example =
     \<lparr> PCOSInputData.age = 25, weight = 55, bmi = 22, cycleRegular = False, cycleLength = 28,
       weightGain = False, hairGrowth = True, skinDarkening = True, hairLoss = False,
       pimples = False, fastFood = False, regularExercise = True, follicleLeft = 5,
       follicleRight = 4, endometrium = 8 \<rparr>"


definition pcos_all_true :: PCOSInputData where
  \<comment> \<open>every indicator set: a total score of 10.5\<close>
  "pcos_all_true =
     \<lparr> PCOSInputData.age = 30, weight = 80, bmi = 31, cycleRegular = False, cycleLength = 45,
       weightGain = True, hairGrowth = True, skinDarkening = True, hairLoss = True,
       pimples = True, fastFood = True, regularExercise = False, follicleLeft = 8,
       follicleRight = 7, endometrium = 8 \<rparr>"

definition menopause_example :: MenopauseInputData where
  "menopause_example =
     \<lparr> MenopauseInputData.age = 47, estrogenLevel = 45, fshLevel = 30, yearsSinceLastPeriod = 0.25,
       irregularPeriods = True, missedPeriods = False, hotFlashes = True, nightSweats = False,
       sleepProblems = True, vaginalDryness = False, jointPain = False \<rparr>"


definition example_date :: Date where
  \<comment> \<open>29 February 2024, at midnight\<close>
  "example_date = \<lparr> localDay = 19782, timeInDay = 0 \<rparr>"

definition cycle_example :: CycleData where
  \<comment> \<open>seven cycles, of which the last six count; stress and short sleep reported\<close>
  "cycle_example =
     \<lparr> cycleHistory = [40, 26, 30, 26, 30, 26, 30],
       lastPeriodStart = example_date,
       symptoms = Some \<lparr> cramps = Some Cramps_mild, mood = Some Mood_stable,
                         acne = Some False, bloating = None, fatigue = None \<rparr>,
       stressLevel = Some 4,
       sleepHours = Some 5 \<rparr>"

definition cycle_example_recent :: CycleData where
  \<comment> \<open>the last six cycles of \<open>cycle_example\<close> alone, nothing else reported\<close>
  "cycle_example_recent =
     \<lparr> cycleHistory = [26, 30, 26, 30, 26, 30], lastPeriodStart = example_date,
       symptoms = None, stressLevel = None, sleepHours = None \<rparr>"

definition cycle_no_history :: CycleData where
  "cycle_no_history =
     \<lparr> cycleHistory = [], lastPeriodStart = example_date, symptoms = None,
       stressLevel = Some 5, sleepHours = Some 4 \<rparr>"

definition cycle_no_symptoms :: CycleData where
  \<comment> \<open>one cycle of 40 days, the optional fields left out\<close>
  "cycle_no_symptoms =
     \<lparr> cycleHistory = [40], lastPeriodStart = example_date, symptoms = None,
       stressLevel = None, sleepHours = None \<rparr>"

definition fetch_network_error :: "'j FetchOutcome" where
  "fetch_network_error = Rejects ''Failed to fetch''"

definition fetch_server_error :: "'j FetchOutcome" where
  "fetch_server_error =
     Resolves (Response False (Inr ''Internal Server Error'') (Inl ''Unexpected token I in JSON''))"


section \<open>Properties of the PCOS engine\<close>

lemma predictPCOS_hasPCOS: "hasPCOS (predictPCOS d) = (pcos_totalScore d \<ge> 4)"
  by (simp add: predictPCOS_def Let_def)

lemma predictPCOS_riskPercentage:
  "PCOSResult.riskPercentage (predictPCOS d) =
     Math_min 100 (Math_max (if pcos_totalScore d \<ge> 4 then 30 else 0) (pcos_unclamped d))"
  by (simp add: predictPCOS_def Let_def)

lemma predictPCOS_severity:
  "severity (predictPCOS d) =
     (if \<not> hasPCOS (predictPCOS d) then Sev_none
      else if PCOSResult.riskPercentage (predictPCOS d) < 50 then Sev_low
      else if PCOSResult.riskPercentage (predictPCOS d) < 70 then Sev_medium
      else Sev_high)"
  by (simp add: predictPCOS_def Let_def)

lemmas pcos_defs =
  predictPCOS_def Let_def pcos_totalScore_def pcos_cycleScore_def pcos_hormonalScore_def
  pcos_ultrasoundScore_def pcos_totalFollicles_def pcos_metabolicScore_def
  pcos_lifestyleScore_def pcos_unclamped_def Math_round_def Math_max_def Math_min_def

lemma pcos_example_hasPCOS: "hasPCOS (predictPCOS pcos_example)"
  by (simp add: pcos_defs pcos_example_def)

lemma pcos_example_risk: "PCOSResult.riskPercentage (predictPCOS pcos_example) = 44"
  by (simp add: pcos_defs pcos_example_def)

text \<open>
  Claim C1. For every input, \<^verbatim>\<open>predictPCOS\<close> gives the severity \<^verbatim>\<open>'none'\<close> exactly when
  \<^verbatim>\<open>hasPCOS\<close> is false; when \<^verbatim>\<open>hasPCOS\<close> is true the severity is \<^verbatim>\<open>'low'\<close> exactly when the
  risk percentage is below 50, \<^verbatim>\<open>'medium'\<close> exactly when it is at least 50 and below 70,
  and \<^verbatim>\<open>'high'\<close> exactly when it is at least 70.
\<close>

theorem predictPCOS_severity_buckets:
  "(PCOSResult.severity (predictPCOS d) = Sev_none \<longleftrightarrow> \<not> hasPCOS (predictPCOS d)) \<and>
   (hasPCOS (predictPCOS d) \<longrightarrow>
      (PCOSResult.severity (predictPCOS d) = Sev_low \<longleftrightarrow>
         PCOSResult.riskPercentage (predictPCOS d) < 50) \<and>
      (PCOSResult.severity (predictPCOS d) = Sev_medium \<longleftrightarrow>
         50 \<le> PCOSResult.riskPercentage (predictPCOS d) \<and>
         PCOSResult.riskPercentage (predictPCOS d) < 70) \<and>
      (PCOSResult.severity (predictPCOS d) = Sev_high \<longleftrightarrow>
         70 \<le> PCOSResult.riskPercentage (predictPCOS d)))"
  by (simp add: predictPCOS_severity)

theorem predictPCOS_severity_buckets_witness:
  "hasPCOS (predictPCOS pcos_example) \<and>
   PCOSResult.severity (predictPCOS pcos_example) = Sev_low"
  using predictPCOS_severity_buckets [of pcos_example] pcos_example_hasPCOS pcos_example_risk
  by simp

lemma pcos_total_spec: "pcos_totalScore d = spec_pcos_total d"
  by (simp add: pcos_totalScore_def pcos_cycleScore_def pcos_hormonalScore_def
      pcos_ultrasoundScore_def pcos_totalFollicles_def pcos_metabolicScore_def
      pcos_lifestyleScore_def spec_pcos_total_def count_true_def)

lemma pcos_total_nonneg: "0 \<le> pcos_totalScore d"
  by (simp add: pcos_totalScore_def pcos_cycleScore_def pcos_hormonalScore_def
      pcos_ultrasoundScore_def pcos_totalFollicles_def pcos_metabolicScore_def
      pcos_lifestyleScore_def)

lemma Math_round_round: "Math_round x = of_int (round x)"
  by (simp add: Math_round_def round_def)

lemma Math_round_nonneg: "0 \<le> x \<Longrightarrow> 0 \<le> Math_round x"
  by (simp add: Math_round_def)

lemma pcos_unclamped_nonneg: "0 \<le> pcos_unclamped d"
  unfolding pcos_unclamped_def using pcos_total_nonneg [of d]
  by (intro Math_round_nonneg) simp

text \<open>
  Claim C2. The total score of \<^verbatim>\<open>predictPCOS\<close> is twice the irregular-cycle indicator, plus
  twice the indicator of at least ten follicles in all, plus the number of hormonal
  symptoms, plus the indicator of a BMI of at least 25, plus a half for each of weight
  gain, fast food and no regular exercise; \<^verbatim>\<open>hasPCOS\<close> holds exactly when the total is at
  least 4; the risk percentage is the total over 9 times 100, rounded, raised to at least
  30 when \<^verbatim>\<open>hasPCOS\<close> holds, and capped at 100.
\<close>

theorem predictPCOS_weighted_total:
  "pcos_totalScore d = spec_pcos_total d \<and>
   hasPCOS (predictPCOS d) = (spec_pcos_total d \<ge> 4) \<and>
   PCOSResult.riskPercentage (predictPCOS d) = spec_pcos_risk d"
proof -
  have r: "of_int (round (spec_pcos_total d / 9 * 100)) = pcos_unclamped d"
    by (simp add: pcos_unclamped_def Math_round_round pcos_total_spec)
  have s: "spec_pcos_risk d =
      min 100 (if pcos_totalScore d \<ge> 4 then max 30 (pcos_unclamped d) else pcos_unclamped d)"
    unfolding spec_pcos_risk_def Let_def r pcos_total_spec ..
  have "PCOSResult.riskPercentage (predictPCOS d) = spec_pcos_risk d"
    using pcos_unclamped_nonneg [of d] unfolding predictPCOS_riskPercentage s
    by (simp add: Math_max_def Math_min_def max_def min_def)
  then show ?thesis by (simp add: pcos_total_spec predictPCOS_hasPCOS)
qed

theorem predictPCOS_weighted_total_witness:
  "spec_pcos_total pcos_example = 4 \<and> hasPCOS (predictPCOS pcos_example) \<and>
   PCOSResult.riskPercentage (predictPCOS pcos_example) = 44"
  using predictPCOS_weighted_total [of pcos_example]
  by (simp add: spec_pcos_total_def spec_pcos_risk_def count_true_def pcos_example_def
      round_def)


section \<open>Properties of the menopause engine and of both risk percentages\<close>

lemma Math_round_Ints: "Math_round x \<in> \<int>"
  by (simp add: Math_round_def)

lemma clamp_Ints:
  "lo \<in> \<int> \<Longrightarrow> hi \<in> \<int> \<Longrightarrow> x \<in> \<int> \<Longrightarrow> Math_min hi (Math_max lo x) \<in> \<int>"
  by (simp add: Math_min_def Math_max_def)

lemma clamp_bounds:
  "lo \<le> hi \<Longrightarrow> lo \<le> Math_min hi (Math_max lo x) \<and> Math_min hi (Math_max lo x) \<le> hi"
  by (simp add: Math_min_def Math_max_def)

lemma predictMenopause_riskPercentage:
  "MenopauseResult.riskPercentage (predictMenopause d) =
     Math_min 100 (Math_max 0 (Math_round ((meno_totalScore d / 19) * 100)))"
  by (simp add: predictMenopause_def Let_def)

lemma pcos_all_true_total: "pcos_totalScore pcos_all_true = 10.5"
  by (simp add: pcos_defs pcos_all_true_def)

lemma pcos_all_true_unclamped: "pcos_unclamped pcos_all_true = 117"
  by (simp add: pcos_defs pcos_all_true_def)

text \<open>
  Claim C8. The risk percentage of \<^verbatim>\<open>predictPCOS\<close> is an integer from 0 to 100 and is at
  least 30 whenever \<^verbatim>\<open>hasPCOS\<close> is true; the risk percentage of \<^verbatim>\<open>predictMenopause\<close> is an
  integer from 0 to 100; and there is an input whose total PCOS score exceeds 9, so that
  the value before clamping exceeds 100.
\<close>

theorem riskPercentage_range:
  "PCOSResult.riskPercentage (predictPCOS d) \<in> \<int> \<and>
   0 \<le> PCOSResult.riskPercentage (predictPCOS d) \<and>
   PCOSResult.riskPercentage (predictPCOS d) \<le> 100 \<and>
   (hasPCOS (predictPCOS d) \<longrightarrow> 30 \<le> PCOSResult.riskPercentage (predictPCOS d)) \<and>
   MenopauseResult.riskPercentage (predictMenopause m) \<in> \<int> \<and>
   0 \<le> MenopauseResult.riskPercentage (predictMenopause m) \<and>
   MenopauseResult.riskPercentage (predictMenopause m) \<le> 100 \<and>
   (\<exists>d'. pcos_totalScore d' > 9 \<and> pcos_unclamped d' > 100 \<and>
         PCOSResult.riskPercentage (predictPCOS d') = 100)"
proof -
  let ?lo = "if pcos_totalScore d \<ge> 4 then 30 else 0 :: real"
  have lo: "?lo \<in> \<int>" "?lo \<le> 100" "0 \<le> ?lo" by simp_all
  have p1: "PCOSResult.riskPercentage (predictPCOS d) \<in> \<int>"
    unfolding predictPCOS_riskPercentage pcos_unclamped_def
    using lo(1) by (intro clamp_Ints Math_round_Ints) simp_all
  have p2: "?lo \<le> PCOSResult.riskPercentage (predictPCOS d) \<and>
            PCOSResult.riskPercentage (predictPCOS d) \<le> 100"
    unfolding predictPCOS_riskPercentage using lo(2) by (rule clamp_bounds)
  have p3: "0 \<le> PCOSResult.riskPercentage (predictPCOS d)"
    using p2 lo(3) by linarith
  have p4: "hasPCOS (predictPCOS d) \<longrightarrow> 30 \<le> PCOSResult.riskPercentage (predictPCOS d)"
    using p2 by (auto simp add: predictPCOS_hasPCOS split: if_splits)
  have m1: "MenopauseResult.riskPercentage (predictMenopause m) \<in> \<int>"
    unfolding predictMenopause_riskPercentage
    by (intro clamp_Ints Math_round_Ints) simp_all
  have m2: "0 \<le> MenopauseResult.riskPercentage (predictMenopause m) \<and>
            MenopauseResult.riskPercentage (predictMenopause m) \<le> 100"
    unfolding predictMenopause_riskPercentage by (rule clamp_bounds) simp
  have e: "pcos_totalScore pcos_all_true > 9 \<and> pcos_unclamped pcos_all_true > 100 \<and>
         PCOSResult.riskPercentage (predictPCOS pcos_all_true) = 100"
    by (simp add: predictPCOS_riskPercentage pcos_all_true_total pcos_all_true_unclamped
        Math_max_def Math_min_def)
  from p1 p2 p3 p4 m1 m2 e show ?thesis by blast
qed

theorem riskPercentage_range_witness:
  "hasPCOS (predictPCOS pcos_example) \<and>
   30 \<le> PCOSResult.riskPercentage (predictPCOS pcos_example) \<and>
   PCOSResult.riskPercentage (predictPCOS pcos_example) \<le> 100 \<and>
   MenopauseResult.riskPercentage (predictMenopause menopause_example) \<le> 100"
  using riskPercentage_range [of pcos_example menopause_example] pcos_example_hasPCOS
  by simp

text \<open>
  Claim C4. \<^verbatim>\<open>predictMenopause\<close> gives the stage \<^verbatim>\<open>'Post-Menopause'\<close> exactly when
  \<^verbatim>\<open>yearsSinceLastPeriod\<close> is at least 1; otherwise \<^verbatim>\<open>'Peri-Menopause'\<close> exactly when the age
  is at least 40 and one of irregular periods, missed periods and hot flashes is
  reported; otherwise \<^verbatim>\<open>'Pre-Menopause'\<close>; and \<^verbatim>\<open>hasMenopauseSymptoms\<close> is true exactly when
  the stage is not \<^verbatim>\<open>'Pre-Menopause'\<close>.
\<close>

theorem predictMenopause_stage_rule:
  "(stage (predictMenopause d) = Post_Menopause \<longleftrightarrow> yearsSinceLastPeriod d \<ge> 1) \<and>
   (\<not> yearsSinceLastPeriod d \<ge> 1 \<longrightarrow>
      (stage (predictMenopause d) = Peri_Menopause \<longleftrightarrow>
         MenopauseInputData.age d \<ge> 40 \<and>
         (irregularPeriods d \<or> missedPeriods d \<or> hotFlashes d))) \<and>
   (\<not> yearsSinceLastPeriod d \<ge> 1 \<and>
    \<not> (MenopauseInputData.age d \<ge> 40 \<and>
       (irregularPeriods d \<or> missedPeriods d \<or> hotFlashes d)) \<longrightarrow>
      stage (predictMenopause d) = Pre_Menopause) \<and>
   (hasMenopauseSymptoms (predictMenopause d) \<longleftrightarrow>
      stage (predictMenopause d) \<noteq> Pre_Menopause)"
  by (simp add: predictMenopause_def Let_def meno_stage_def)

theorem predictMenopause_stage_rule_witness:
  "\<not> yearsSinceLastPeriod menopause_example \<ge> 1 \<and>
   stage (predictMenopause menopause_example) = Peri_Menopause \<and>
   hasMenopauseSymptoms (predictMenopause menopause_example)"
  using predictMenopause_stage_rule [of menopause_example]
  by (simp add: menopause_example_def)


section \<open>Properties of the cycle prediction\<close>

lemma ToIntegerOrInfinity_of_int: "ToIntegerOrInfinity (of_int n) = n"
  by (simp add: ToIntegerOrInfinity_def)

lemma setDate_getDate: "setDate d (getDate d + of_int n) = addDays d n"
proof -
  have "ToIntegerOrInfinity (getDate d + of_int n) = DateFromTime (localDay d) + n"
    using ToIntegerOrInfinity_of_int [of "DateFromTime (localDay d) + n"]
    by (simp add: getDate_def)
  then show ?thesis
    by (simp add: setDate_def Let_def addDays_def)
qed

text \<open>
  Claim C9. With an empty \<^verbatim>\<open>cycleHistory\<close>, \<^verbatim>\<open>predictNextCycle\<close> returns the default
  prediction: the start date 28 days after \<^verbatim>\<open>lastPeriodStart\<close>, confidence \<^verbatim>\<open>'low'\<close>, average
  cycle length 28, variability 0, not irregular, no PCOS risk flag, and no delay
  adjustment.
\<close>

theorem predictNextCycle_empty_history:
  assumes "cycleHistory d = []"
  shows "predictNextCycle d =
     \<lparr> predictedStartDate = addDays (lastPeriodStart d) 28,
       confidenceLevel = Conf_low,
       averageCycleLength = 28,
       cycleVariability = 0,
       isIrregular = False,
       pcosRiskFlag = Some False,
       delayAdjustment = 0 \<rparr>"
proof -
  have "setDate (lastPeriodStart d) (getDate (lastPeriodStart d) + 28) =
        addDays (lastPeriodStart d) 28"
    using setDate_getDate [of "lastPeriodStart d" 28] by simp
  then show ?thesis using assms by (simp add: predictNextCycle_def Let_def new_Date_def)
qed

theorem predictNextCycle_empty_history_witness:
  "cycleHistory cycle_no_history = [] \<and>
   predictedStartDate (predictNextCycle cycle_no_history) = \<lparr> localDay = 19810, timeInDay = 0 \<rparr> \<and>
   averageCycleLength (predictNextCycle cycle_no_history) = 28 \<and>
   delayAdjustment (predictNextCycle cycle_no_history) = 0"
proof -
  have h: "cycleHistory cycle_no_history = []" by (simp add: cycle_no_history_def)
  show ?thesis
    using h predictNextCycle_empty_history [OF h]
    by (simp add: cycle_no_history_def addDays_def example_date_def)
qed

lemma foldl_add_sum_list:
  "foldl (\<lambda>acc p. acc + g p) a ps = a + sum_list (map g ps)" for a :: real
  by (induction ps arbitrary: a) (simp_all add: add.assoc)

lemma reduce_sum_sum_list: "reduce_sum xs = sum_list xs"
  using foldl_add_sum_list [of "\<lambda>x. x" 0 xs] by (simp add: reduce_sum_def)

lemma reduce_indexed_sum:
  "reduce_indexed (\<lambda>sum x i. sum + h x i) 0 xs = (\<Sum>i<length xs. h (xs ! i) i)"
proof -
  have "reduce_indexed (\<lambda>sum x i. sum + h x i) 0 xs =
        sum_list (map (\<lambda>(x, i). h x i) (zip xs [0..<length xs]))"
    using foldl_add_sum_list [of "\<lambda>(x, i). h x i" 0 "zip xs [0..<length xs]"]
    by (simp add: reduce_indexed_def case_prod_unfold)
  also have "\<dots> = (\<Sum>i = 0..<length xs. h (xs ! i) i)"
    by (simp add: sum_list_sum_nth)
  finally show ?thesis by (simp add: lessThan_atLeast0)
qed

lemma slice_last6_spec: "slice_last6 h = spec_last_cycles h"
  by (simp add: slice_last6_def spec_last_cycles_def min_def)

lemma spec_last_cycles_nonempty: "h \<noteq> [] \<Longrightarrow> spec_last_cycles h \<noteq> []"
  by (cases h) (auto simp add: spec_last_cycles_def min_def)

lemma spec_last_cycles_length: "length (spec_last_cycles h) = min 6 (length h)"
  by (simp add: spec_last_cycles_def)

lemma sum_list_map_nth:
  "sum_list (map f xs) = (\<Sum>i<length xs. f (xs ! i))" for f :: "'a \<Rightarrow> real"
proof -
  have "sum_list (map f xs) = (\<Sum>i = 0..<length xs. map f xs ! i)"
    using sum_list_sum_nth [of "map f xs"] by simp
  also have "\<dots> = (\<Sum>i = 0..<length xs. f (xs ! i))"
    by (rule sum.cong) simp_all
  finally show ?thesis by (simp add: lessThan_atLeast0)
qed

lemma cyc_recentCycles_spec: "cyc_recentCycles d = spec_last_cycles (cycleHistory d)"
  by (simp add: cyc_recentCycles_def slice_last6_spec)

lemma cyc_totalWeight_sum:
  "cyc_totalWeight d = (\<Sum>i<length (cyc_recentCycles d). real (i + 1))"
proof -
  have "cyc_totalWeight d = sum_list (map (\<lambda>i. real i + 1) [0..<length (cyc_recentCycles d)])"
    by (simp add: cyc_totalWeight_def cyc_weights_def reduce_sum_sum_list)
  also have "\<dots> = (\<Sum>i<length (cyc_recentCycles d). real i + 1)"
    by (simp add: interv_sum_list_conv_sum_set_nat lessThan_atLeast0)
  finally show ?thesis by (simp add: add.commute)
qed

lemma cyc_weightedAverage_spec:
  "cyc_weightedAverage d = spec_weighted_mean (spec_last_cycles (cycleHistory d))"
proof -
  let ?rc = "cyc_recentCycles d"
  have "reduce_indexed (\<lambda>sum cycle i. sum + cycle * (cyc_weights d ! i)) 0 ?rc =
        (\<Sum>i<length ?rc. ?rc ! i * (cyc_weights d ! i))"
    by (rule reduce_indexed_sum)
  also have "\<dots> = (\<Sum>i<length ?rc. real (i + 1) * ?rc ! i)"
    by (rule sum.cong) (simp_all add: cyc_weights_def mult.commute add.commute)
  finally have num: "reduce_indexed (\<lambda>sum cycle i. sum + cycle * (cyc_weights d ! i)) 0 ?rc =
        (\<Sum>i<length ?rc. real (i + 1) * ?rc ! i)" .
  show ?thesis
    unfolding cyc_weightedAverage_def num cyc_totalWeight_sum spec_weighted_mean_def
    by (simp add: cyc_recentCycles_spec)
qed

lemma cyc_variability_spec:
  "cyc_variability d = spec_population_sd (spec_last_cycles (cycleHistory d))"
proof -
  let ?rc = "cyc_recentCycles d"
  have mean: "cyc_mean d = sum_list ?rc / real (length ?rc)"
    by (simp add: cyc_mean_def reduce_sum_sum_list)
  have "reduce_indexed (\<lambda>sum cycle i. sum + Math_pow2 (cycle - cyc_mean d)) 0 ?rc =
        (\<Sum>i<length ?rc. Math_pow2 (?rc ! i - cyc_mean d))"
    by (rule reduce_indexed_sum)
  also have "\<dots> = (\<Sum>x\<leftarrow>?rc. (x - cyc_mean d)\<^sup>2)"
    by (simp add: sum_list_map_nth Math_pow2_def power2_eq_square)
  finally have var: "cyc_variance d =
      (\<Sum>x\<leftarrow>?rc. (x - sum_list ?rc / real (length ?rc))\<^sup>2) / real (length ?rc)"
    by (simp add: cyc_variance_def mean)
  show ?thesis
    unfolding cyc_variability_def Math_sqrt_def var spec_population_sd_def Let_def
    by (simp add: cyc_recentCycles_spec)
qed

lemma predictNextCycle_nonempty:
  assumes "cycleHistory d \<noteq> []"
  shows "predictNextCycle d =
     \<lparr> predictedStartDate =
         setDate (lastPeriodStart d)
           (getDate (lastPeriodStart d) + Math_round (cyc_weightedAverage d) + cyc_delayAdjustment d),
       confidenceLevel = cyc_confidenceLevel d,
       averageCycleLength = Math_round (cyc_weightedAverage d),
       cycleVariability = Math_round (cyc_variability d * 10) / 10,
       isIrregular = cyc_isIrregular d,
       pcosRiskFlag = cyc_pcosRiskFlag d,
       delayAdjustment = cyc_delayAdjustment d \<rparr>"
  using assms by (simp add: predictNextCycle_def Let_def new_Date_def)

text \<open>
  Claim C3. With a non-empty \<^verbatim>\<open>cycleHistory\<close> of \<open>n\<close> entries, \<^verbatim>\<open>averageCycleLength\<close> is the
  rounded weighted mean of the last \<open>min 6 n\<close> entries with the weights \<open>1, 2, ..., k\<close>,
  the latest entry weighing most, and \<^verbatim>\<open>cycleVariability\<close> is the population standard
  deviation of the same entries rounded to one decimal place; so two histories with the
  same last six entries give the same two values.
\<close>

theorem predictNextCycle_average_and_variability:
  assumes "cycleHistory d \<noteq> []"
  shows "averageCycleLength (predictNextCycle d) =
           of_int (round (spec_weighted_mean (spec_last_cycles (cycleHistory d)))) \<and>
         cycleVariability (predictNextCycle d) =
           of_int (round (spec_population_sd (spec_last_cycles (cycleHistory d)) * 10)) / 10 \<and>
         length (spec_last_cycles (cycleHistory d)) = min 6 (length (cycleHistory d)) \<and>
         (\<forall>d'. cycleHistory d' \<noteq> [] \<and>
               spec_last_cycles (cycleHistory d') = spec_last_cycles (cycleHistory d) \<longrightarrow>
               averageCycleLength (predictNextCycle d') = averageCycleLength (predictNextCycle d) \<and>
               cycleVariability (predictNextCycle d') = cycleVariability (predictNextCycle d))"
proof -
  have a: "averageCycleLength (predictNextCycle e) =
           of_int (round (spec_weighted_mean (spec_last_cycles (cycleHistory e))))"
    if "cycleHistory e \<noteq> []" for e
    using that by (simp add: predictNextCycle_nonempty Math_round_round cyc_weightedAverage_spec)
  have v: "cycleVariability (predictNextCycle e) =
           of_int (round (spec_population_sd (spec_last_cycles (cycleHistory e)) * 10)) / 10"
    if "cycleHistory e \<noteq> []" for e
    using that by (simp add: predictNextCycle_nonempty Math_round_round cyc_variability_spec)
  have f: "averageCycleLength (predictNextCycle e) = averageCycleLength (predictNextCycle d) \<and>
           cycleVariability (predictNextCycle e) = cycleVariability (predictNextCycle d)"
    if "cycleHistory e \<noteq> []"
      and "spec_last_cycles (cycleHistory e) = spec_last_cycles (cycleHistory d)" for e
    unfolding a [OF that(1)] v [OF that(1)] a [OF assms] v [OF assms] that(2) by simp
  from a [OF assms] v [OF assms] f spec_last_cycles_length [of "cycleHistory d"]
  show ?thesis by blast
qed

lemma cycle_example_last: "spec_last_cycles (cycleHistory cycle_example) = [26, 30, 26, 30, 26, 30]"
  by (simp add: spec_last_cycles_def cycle_example_def)

lemma cycle_example_mean: "spec_weighted_mean [26, 30, 26, 30, 26, 30] = 594 / 21"
  by (simp add: spec_weighted_mean_def lessThan_nat_numeral lessThan_Suc)

lemma cycle_example_sd: "spec_population_sd [26, 30, 26, 30, 26, 30] = 2"
  by (simp add: spec_population_sd_def Let_def)

lemma cycle_example_recent_last:
  "spec_last_cycles (cycleHistory cycle_example_recent) = [26, 30, 26, 30, 26, 30]"
  by (simp add: spec_last_cycles_def cycle_example_recent_def)

theorem predictNextCycle_average_and_variability_witness:
  "cycleHistory cycle_example \<noteq> [] \<and>
   averageCycleLength (predictNextCycle cycle_example) = 28 \<and>
   cycleVariability (predictNextCycle cycle_example) = 2 \<and>
   cycleHistory cycle_example_recent \<noteq> [] \<and>
   spec_last_cycles (cycleHistory cycle_example_recent) =
     spec_last_cycles (cycleHistory cycle_example) \<and>
   averageCycleLength (predictNextCycle cycle_example_recent) = 28 \<and>
   cycleVariability (predictNextCycle cycle_example_recent) = 2"
proof -
  have h: "cycleHistory cycle_example \<noteq> []" by (simp add: cycle_example_def)
  have h': "cycleHistory cycle_example_recent \<noteq> []" by (simp add: cycle_example_recent_def)
  have l: "spec_last_cycles (cycleHistory cycle_example_recent) =
           spec_last_cycles (cycleHistory cycle_example)"
    by (simp add: cycle_example_last cycle_example_recent_last)
  have v: "averageCycleLength (predictNextCycle cycle_example) = 28 \<and>
           cycleVariability (predictNextCycle cycle_example) = 2"
    using predictNextCycle_average_and_variability [OF h]
    by (simp add: cycle_example_last cycle_example_mean cycle_example_sd round_def)
  have "averageCycleLength (predictNextCycle cycle_example_recent) =
          averageCycleLength (predictNextCycle cycle_example) \<and>
        cycleVariability (predictNextCycle cycle_example_recent) =
          cycleVariability (predictNextCycle cycle_example)"
    using predictNextCycle_average_and_variability [OF h] h' l by blast
  with h h' l v show ?thesis by simp
qed

lemma cyc_delayAdjustment_spec: "cyc_delayAdjustment d = spec_delay d"
  by (cases "stressLevel d"; cases "sleepHours d")
     (auto simp add: cyc_delayAdjustment_def spec_delay_def Let_def)

lemma spec_delay_cases: "spec_delay d = of_int \<lfloor>spec_delay d\<rfloor> \<and> spec_delay d \<in> {0, 1, 2, 3}"
  by (simp add: spec_delay_def)

text \<open>
  Claim C10. With a non-empty \<^verbatim>\<open>cycleHistory\<close>, \<^verbatim>\<open>delayAdjustment\<close> is 2 when a stress level
  of at least 4 is given, plus 1 when sleep hours are given, not zero and below 6; it is
  one of 0, 1, 2 and 3; and the predicted start date is \<^verbatim>\<open>lastPeriodStart\<close> moved by
  \<^verbatim>\<open>averageCycleLength\<close> plus \<^verbatim>\<open>delayAdjustment\<close> days.
\<close>

theorem predictNextCycle_delay_and_date:
  assumes "cycleHistory d \<noteq> []"
  shows "delayAdjustment (predictNextCycle d) = spec_delay d \<and>
         delayAdjustment (predictNextCycle d) \<in> {0, 1, 2, 3} \<and>
         averageCycleLength (predictNextCycle d) + delayAdjustment (predictNextCycle d) \<in> \<int> \<and>
         predictedStartDate (predictNextCycle d) =
           addDays (lastPeriodStart d)
             \<lfloor>averageCycleLength (predictNextCycle d) + delayAdjustment (predictNextCycle d)\<rfloor>"
proof -
  let ?r = "predictNextCycle d"
  define n where "n = \<lfloor>cyc_weightedAverage d + 1 / 2\<rfloor> + \<lfloor>spec_delay d\<rfloor>"
  have dl: "delayAdjustment ?r = spec_delay d"
    using assms by (simp add: predictNextCycle_nonempty cyc_delayAdjustment_spec)
  have av: "averageCycleLength ?r = Math_round (cyc_weightedAverage d)"
    using assms by (simp add: predictNextCycle_nonempty)
  have sum: "averageCycleLength ?r + delayAdjustment ?r = of_int n"
    unfolding av dl n_def Math_round_def using spec_delay_cases [of d] by simp
  have "predictedStartDate ?r =
        setDate (lastPeriodStart d) (getDate (lastPeriodStart d) + of_int n)"
    using assms sum by (simp add: predictNextCycle_nonempty add.assoc)
  then have date: "predictedStartDate ?r = addDays (lastPeriodStart d) n"
    by (simp add: setDate_getDate)
  show ?thesis
    using dl spec_delay_cases [of d] date unfolding sum by simp
qed

theorem predictNextCycle_delay_and_date_witness:
  "cycleHistory cycle_example \<noteq> [] \<and>
   delayAdjustment (predictNextCycle cycle_example) = 3 \<and>
   predictedStartDate (predictNextCycle cycle_example) = \<lparr> localDay = 19813, timeInDay = 0 \<rparr>"
proof -
  have h: "cycleHistory cycle_example \<noteq> []" by (simp add: cycle_example_def)
  have a: "averageCycleLength (predictNextCycle cycle_example) = 28"
    using h by (simp add: predictNextCycle_nonempty cyc_weightedAverage_spec cycle_example_last
        cycle_example_mean Math_round_def)
  have s: "spec_delay cycle_example = 3"
    by (simp add: spec_delay_def cycle_example_def)
  show ?thesis
    using h predictNextCycle_delay_and_date [OF h] a s
    by (simp add: cycle_example_def addDays_def example_date_def)
qed

lemma predictNextCycle_isIrregular:
  assumes "cycleHistory d \<noteq> []"
  shows "isIrregular (predictNextCycle d) \<longleftrightarrow>
           spec_population_sd (spec_last_cycles (cycleHistory d)) > 7 \<or>
           (\<exists>c \<in> set (spec_last_cycles (cycleHistory d)). c < 21 \<or> c > 35)"
  using assms
  by (simp add: predictNextCycle_nonempty cyc_isIrregular_def cyc_variability_spec
      cyc_recentCycles_spec list_ex_iff)

lemma predictNextCycle_pcosRiskFlag_true:
  assumes "cycleHistory d \<noteq> []"
  shows "pcosRiskFlag (predictNextCycle d) = Some True \<longleftrightarrow>
           length (filter (\<lambda>c. c > 35) (spec_last_cycles (cycleHistory d))) \<ge> 3 \<or>
           (isIrregular (predictNextCycle d) \<and>
            (\<exists>s. symptoms d = Some s \<and> acne s = Some True \<and>
                 (cramps s = Some Cramps_severe \<or> mood s = Some Mood_irritable)))"
  using assms
  by (cases "symptoms d")
     (auto simp add: predictNextCycle_nonempty cyc_pcosRiskFlag_def cyc_longCycles_def
        cyc_recentCycles_spec js_or_def js_and_def opt_chain_def)

lemma predictNextCycle_pcosRiskFlag_undefined:
  assumes "cycleHistory d \<noteq> []"
  shows "pcosRiskFlag (predictNextCycle d) = None \<longleftrightarrow>
           length (filter (\<lambda>c. c > 35) (spec_last_cycles (cycleHistory d))) < 3 \<and>
           isIrregular (predictNextCycle d) \<and>
           (case symptoms d of None \<Rightarrow> True | Some s \<Rightarrow> acne s = None)"
  using assms
  by (cases "symptoms d")
     (auto simp add: predictNextCycle_nonempty cyc_pcosRiskFlag_def cyc_longCycles_def
        cyc_recentCycles_spec js_or_def js_and_def opt_chain_def)

lemma cycle_no_symptoms_last: "spec_last_cycles (cycleHistory cycle_no_symptoms) = [40]"
  by (simp add: spec_last_cycles_def cycle_no_symptoms_def)

text \<open>
  Claim C7 says that \<^verbatim>\<open>pcosRiskFlag\<close> is true when at least three of the last six cycles
  exceed 35 days, or the cycle is irregular and acne is reported with severe cramps or an
  irritable mood, and false otherwise. The two lemmas above give the part that holds: the
  irregularity test, and the cases in which the flag is \<^verbatim>\<open>true\<close>. In the other cases the flag
  is not always \<^verbatim>\<open>false\<close>: for one cycle of 40 days and no \<^verbatim>\<open>symptoms\<close> object the cycle is
  irregular, \<^verbatim>\<open>symptoms?.acne\<close> is \<^verbatim>\<open>undefined\<close>, and the \<^verbatim>\<open>&&\<close> chain stores \<^verbatim>\<open>undefined\<close> in
  the field declared \<^verbatim>\<open>boolean\<close>.
\<close>

theorem predictNextCycle_pcosRiskFlag_not_boolean:
  "cycleHistory cycle_no_symptoms \<noteq> [] \<and>
   isIrregular (predictNextCycle cycle_no_symptoms) \<and>
   length (filter (\<lambda>c. c > 35) (spec_last_cycles (cycleHistory cycle_no_symptoms))) < 3 \<and>
   symptoms cycle_no_symptoms = None \<and>
   pcosRiskFlag (predictNextCycle cycle_no_symptoms) = None \<and>
   pcosRiskFlag (predictNextCycle cycle_no_symptoms) \<noteq> Some False"
proof -
  have h: "cycleHistory cycle_no_symptoms \<noteq> []" by (simp add: cycle_no_symptoms_def)
  have i: "isIrregular (predictNextCycle cycle_no_symptoms)"
    by (simp add: predictNextCycle_isIrregular [OF h] cycle_no_symptoms_last)
  have s: "symptoms cycle_no_symptoms = None" by (simp add: cycle_no_symptoms_def)
  have "pcosRiskFlag (predictNextCycle cycle_no_symptoms) = None"
    by (simp add: predictNextCycle_pcosRiskFlag_undefined [OF h] i s cycle_no_symptoms_last)
  with h i s show ?thesis by (simp add: cycle_no_symptoms_last)
qed


section \<open>Properties of the fallback\<close>

lemma api_call_fails_pcos: "api_call_fails f \<Longrightarrow> \<exists>msg. pcos_try f = Inl msg"
  by (cases f) (auto simp add: api_call_fails_def pcos_try_def split: sum.splits)

lemma api_call_fails_menopause: "api_call_fails f \<Longrightarrow> \<exists>msg. menopause_try f = Inl msg"
  by (cases f) (auto simp add: api_call_fails_def menopause_try_def split: sum.splits)

lemma api_call_fails_cycle: "api_call_fails f \<Longrightarrow> \<exists>msg. cycle_try f = Inl msg"
  by (cases f) (auto simp add: api_call_fails_def cycle_try_def split: sum.splits)

text \<open>
  Claim C5. When the remote call fails, that is when \<^verbatim>\<open>fetch\<close> throws or the response is
  not ok, each of \<^verbatim>\<open>predictPCOSFromAPI\<close>, \<^verbatim>\<open>predictMenopauseFromAPI\<close> and
  \<^verbatim>\<open>predictCycleFromAPI\<close> returns the result of its local function on the same input,
  with \<^verbatim>\<open>_meta.usedAPI\<close> false.
\<close>

theorem api_failure_returns_local_fallback:
  assumes "api_call_fails fp" and "api_call_fails fm" and "api_call_fails fc"
  shows "fst (predictPCOSFromAPI dp fp) = predictPCOS dp \<and>
         usedAPI (snd (predictPCOSFromAPI dp fp)) = False \<and>
         fst (predictMenopauseFromAPI dm fm) = predictMenopause dm \<and>
         usedAPI (snd (predictMenopauseFromAPI dm fm)) = False \<and>
         fst (predictCycleFromAPI dc fc) = predictNextCycle dc \<and>
         usedAPI (snd (predictCycleFromAPI dc fc)) = False"
proof -
  from assms(1) obtain m1 where "pcos_try fp = Inl m1"
    using api_call_fails_pcos by blast
  then have p: "predictPCOSFromAPI dp fp = (predictPCOS dp, \<lparr> usedAPI = False, error = Some m1 \<rparr>)"
    by (simp add: predictPCOSFromAPI_def)
  from assms(2) obtain m2 where "menopause_try fm = Inl m2"
    using api_call_fails_menopause by blast
  then have m: "predictMenopauseFromAPI dm fm =
      (predictMenopause dm, \<lparr> usedAPI = False, error = Some m2 \<rparr>)"
    by (simp add: predictMenopauseFromAPI_def)
  from assms(3) obtain m3 where "cycle_try fc = Inl m3"
    using api_call_fails_cycle by blast
  then have c: "predictCycleFromAPI dc fc =
      (predictNextCycle dc, \<lparr> usedAPI = False, error = Some m3 \<rparr>)"
    by (simp add: predictCycleFromAPI_def)
  show ?thesis by (simp add: p m c)
qed

theorem api_failure_returns_local_fallback_witness:
  "api_call_fails (fetch_network_error :: PCOSApiBody FetchOutcome) \<and>
   api_call_fails (fetch_server_error :: MenopauseResult FetchOutcome) \<and>
   api_call_fails (fetch_server_error :: CyclePrediction FetchOutcome) \<and>
   predictPCOSFromAPI pcos_example fetch_network_error =
     (predictPCOS pcos_example, \<lparr> usedAPI = False, error = Some ''Failed to fetch'' \<rparr>) \<and>
   predictMenopauseFromAPI menopause_example fetch_server_error =
     (predictMenopause menopause_example,
      \<lparr> usedAPI = False, error = Some ''Backend validation failed'' \<rparr>) \<and>
   predictCycleFromAPI cycle_example fetch_server_error =
     (predictNextCycle cycle_example, \<lparr> usedAPI = False, error = Some ''Backend error'' \<rparr>)"
proof -
  have f: "api_call_fails (fetch_network_error :: PCOSApiBody FetchOutcome)"
          "api_call_fails (fetch_server_error :: MenopauseResult FetchOutcome)"
          "api_call_fails (fetch_server_error :: CyclePrediction FetchOutcome)"
    by (simp_all add: api_call_fails_def fetch_network_error_def fetch_server_error_def)
  have e: "snd (predictPCOSFromAPI pcos_example fetch_network_error) =
             \<lparr> usedAPI = False, error = Some ''Failed to fetch'' \<rparr>"
          "snd (predictMenopauseFromAPI menopause_example fetch_server_error) =
             \<lparr> usedAPI = False, error = Some ''Backend validation failed'' \<rparr>"
          "snd (predictCycleFromAPI cycle_example fetch_server_error) =
             \<lparr> usedAPI = False, error = Some ''Backend error'' \<rparr>"
    by (simp_all add: predictPCOSFromAPI_def predictMenopauseFromAPI_def predictCycleFromAPI_def
        pcos_try_def menopause_try_def cycle_try_def fetch_network_error_def
        fetch_server_error_def)
  show ?thesis
    using f e api_failure_returns_local_fallback [OF f, of pcos_example menopause_example cycle_example]
    by (simp add: prod_eq_iff)
qed

end
